theory Spec2Isabelle
  imports Main
begin

section \<open>The transaction orchestrator of \<^verbatim>\<open>transaction_orchestrator.py\<close>\<close>

text \<open>
  The module has one class, \<^verbatim>\<open>TransactionOrchestrator\<close>, with two fields
  (\<^verbatim>\<open>_pool\<close>, a dictionary from asset ids to integer balances, and \<^verbatim>\<open>_history\<close>, a
  list), one coroutine \<^verbatim>\<open>execute_secure_transfer\<close> and the helper
  \<^verbatim>\<open>_format_response\<close>.

  Python's unbounded integers are \<open>int\<close>. A Python string is a \<open>string\<close>; the two
  Korean literals of the source are given by their UTF-8 bytes. The dictionaries that
  the coroutine returns are association lists in insertion order, over the values below.
  The pool is a map \<open>string \<rightharpoonup> int\<close>.

  What the coroutine reads from its surroundings, the fresh \<^verbatim>\<open>uuid.uuid4()\<close> and the
  clock \<^verbatim>\<open>datetime.now().isoformat()\<close>, is an argument of the model (\<open>env\<close>): one value
  of each per call. What its surroundings can do to it is an argument too (\<open>faults\<close>):
  the \<^verbatim>\<open>print\<close> of line 32 may raise, and the task may be cancelled while it waits at
  the \<^verbatim>\<open>await\<close> of line 52. The text that \<^verbatim>\<open>print\<close> and the logger write changes
  neither the orchestrator nor the returned dictionary and is left out.

  The coroutine gives control back to the event loop at line 52, between the comparison
  of line 43 and the debit of line 55. It is therefore modelled in two parts, the code
  up to the \<^verbatim>\<open>await\<close> and the code after it; other tasks may run in between.
\<close>

subsection \<open>Values, exceptions and state\<close>

datatype pyval = PStr string | PInt int | PDict "(string \<times> pyval) list"

type_synonym pydict = "(string \<times> pyval) list"

text \<open>
  The exceptions: \<^verbatim>\<open>KeyError\<close>, with the message of the \<^verbatim>\<open>raise\<close> of line 38 or the
  missing key when a subscript raises it; \<^verbatim>\<open>asyncio.CancelledError\<close>, thrown into a
  cancelled task at its \<^verbatim>\<open>await\<close>; and any other exception of class \<^verbatim>\<open>Exception\<close>
  raised by code outside the module (by \<^verbatim>\<open>print\<close>, or by the truth test of an
  argument), with its class name. \<^verbatim>\<open>CancelledError\<close> derives from \<^verbatim>\<open>BaseException\<close>
  (Python 3.8 and later), so \<^verbatim>\<open>except Exception\<close> does not catch it.
\<close>

datatype exn = KeyError string | CancelledError | OtherException string

fun is_Exception :: "exn \<Rightarrow> bool" where
  "is_Exception (KeyError k) = True"
| "is_Exception CancelledError = False"
| "is_Exception (OtherException name) = True"

record orchestrator =
  pool :: "string \<rightharpoonup> int"
  history :: "pyval list"

record env =
  uuid4 :: string
  now_isoformat :: string

text \<open>What the surroundings do to one call: the exception that the \<^verbatim>\<open>print\<close> of line
  32 raises, if it raises one, and whether the task is cancelled while it waits at line
  52.\<close>

record faults =
  print_raises :: "exn option"
  cancelled :: bool

definition no_faults :: faults where
  "no_faults = \<lparr>print_raises = None, cancelled = False\<rparr>"

text \<open>The argument \<^verbatim>\<open>metadata\<close>: \<^verbatim>\<open>None\<close> or a plain dictionary, or an object whose
  truth test raises (an instance of a subclass of \<^verbatim>\<open>dict\<close> that overrides
  \<^verbatim>\<open>__bool__\<close>).\<close>

datatype metadata_arg = Plain "pydict option" | TruthRaises exn

text \<open>\<^verbatim>\<open>__init__\<close>: the pool is the caller's dictionary, the history starts empty.\<close>

definition init :: "(string \<rightharpoonup> int) \<Rightarrow> orchestrator" where
  "init resource_pool = \<lparr>pool = resource_pool, history = []\<rparr>"

subsection \<open>String literals of the source\<close>

text \<open>The detail of a rejected transfer, line 47 (UTF-8).\<close>

definition detail_insufficient :: string where
  "detail_insufficient =
     [CHR 0xEC, CHR 0x9E, CHR 0x90, CHR 0xEC, CHR 0x9B, CHR 0x90, CHR 0x20,
      CHR 0xEB, CHR 0xB6, CHR 0x80, CHR 0xEC, CHR 0xA1, CHR 0xB1]"

text \<open>The prefix of the message of the \<^verbatim>\<open>KeyError\<close> of line 38 (UTF-8); the asset id
  follows it.\<close>

definition msg_unknown_key :: string where
  "msg_unknown_key =
     [CHR 0xEC, CHR 0xA1, CHR 0xB4, CHR 0xEC, CHR 0x9E, CHR 0xAC, CHR 0xED, CHR 0x95,
      CHR 0x98, CHR 0xEC, CHR 0xA7, CHR 0x80, CHR 0x20, CHR 0xEC, CHR 0x95, CHR 0x8A,
      CHR 0xEB, CHR 0x8A, CHR 0x94, CHR 0x20, CHR 0xEC, CHR 0x9E, CHR 0x90, CHR 0xEC,
      CHR 0x82, CHR 0xB0, CHR 0x20, CHR 0xED, CHR 0x82, CHR 0xA4, CHR 0xEC, CHR 0x9E,
      CHR 0x85, CHR 0xEB, CHR 0x8B, CHR 0x88, CHR 0xEB, CHR 0x8B, CHR 0xA4, CHR 0x3A,
      CHR 0x20]"

subsection \<open>Operations\<close>

text \<open>\<^verbatim>\<open>_format_response\<close>, line 76.\<close>

definition format_response :: "string \<Rightarrow> string \<Rightarrow> pyval \<Rightarrow> pydict" where
  "format_response tx_id status detail =
     [(''tx_hash'', PStr tx_id), (''status'', PStr status), (''payload'', detail)]"

text \<open>The subscript \<^verbatim>\<open>d[k]\<close> of a dictionary: a missing key raises \<^verbatim>\<open>KeyError(k)\<close>.\<close>

definition subscript :: "(string \<rightharpoonup> int) \<Rightarrow> string \<Rightarrow> exn + int" where
  "subscript d k = (case d k of None \<Rightarrow> Inl (KeyError k) | Some v \<Rightarrow> Inr v)"

text \<open>\<^verbatim>\<open>metadata or {}\<close>: \<^verbatim>\<open>None\<close> and the empty dictionary are falsy.\<close>

definition metadata_or_empty :: "pydict option \<Rightarrow> pydict" where
  "metadata_or_empty metadata =
     (case metadata of None \<Rightarrow> [] | Some d \<Rightarrow> (if d = [] then [] else d))"

text \<open>\<^verbatim>\<open>metadata or {}\<close> for any argument: the truth test comes first and may raise.\<close>

definition metadata_or_empty_arg :: "metadata_arg \<Rightarrow> exn + pydict" where
  "metadata_or_empty_arg m =
     (case m of Plain metadata \<Rightarrow> Inr (metadata_or_empty metadata) | TruthRaises x \<Rightarrow> Inl x)"

text \<open>
  The clause \<^verbatim>\<open>except Exception\<close>, lines 69 to 72, applied to an exception raised
  inside the \<^verbatim>\<open>try\<close>: an exception of class \<^verbatim>\<open>Exception\<close> becomes the two-key
  dictionary, any other one goes on to the caller.
\<close>

definition except_clause :: "string \<Rightarrow> exn \<Rightarrow> exn + pydict" where
  "except_clause tx_id x =
     (if is_Exception x
      then Inr [(''status'', PStr ''CRITICAL_FAILURE''), (''trace'', PStr tx_id)]
      else Inl x)"

text \<open>The local variables that the coroutine still uses after the \<^verbatim>\<open>await\<close>.\<close>

record frame =
  tx_id_of :: string
  asset_id_of :: string
  amount_of :: int
  metadata_of :: metadata_arg

text \<open>How far a part of the coroutine gets: it returns, it raises to the caller, or it
  is suspended at the \<^verbatim>\<open>await\<close>.\<close>

datatype progress = Returned pydict | Raised exn | Suspended frame

text \<open>
  Lines 29 to 52, up to the \<^verbatim>\<open>await\<close>. The \<^verbatim>\<open>print\<close> of line 32 is before the
  \<^verbatim>\<open>try\<close>, so what it raises goes to the caller. Nothing here writes to the
  orchestrator.
\<close>

definition execute_until_await ::
  "orchestrator \<Rightarrow> env \<Rightarrow> faults \<Rightarrow> string \<Rightarrow> int \<Rightarrow> metadata_arg \<Rightarrow> progress"
where
  "execute_until_await self e f asset_id amount metadata =
     (let tx_id = uuid4 e in
      (case print_raises f of
         Some x \<Rightarrow> Raised x
       | None \<Rightarrow>
          (if pool self asset_id = None
           then (case except_clause tx_id (KeyError (msg_unknown_key @ asset_id)) of
                   Inl x \<Rightarrow> Raised x | Inr d \<Rightarrow> Returned d)
           else
             (case subscript (pool self) asset_id of
                Inl x \<Rightarrow> (case except_clause tx_id x of Inl y \<Rightarrow> Raised y | Inr d \<Rightarrow> Returned d)
              | Inr current_balance \<Rightarrow>
                 (let can_proceed = (current_balance \<ge> amount) in
                  if \<not> can_proceed
                  then Returned (format_response tx_id ''REJECTED'' (PStr detail_insufficient))
                  else Suspended \<lparr>tx_id_of = tx_id, asset_id_of = asset_id,
                                   amount_of = amount, metadata_of = metadata\<rparr>)))))"

text \<open>
  Lines 52 to 72, from the \<^verbatim>\<open>await\<close> on, against the orchestrator as it is when the
  task runs again. A cancelled task gets \<^verbatim>\<open>CancelledError\<close> at the \<^verbatim>\<open>await\<close>. The
  augmented assignment of line 55 subscripts the pool (not the balance read at line 42),
  and lines 63 to 65 are evaluated after it, in this order: the subscript, the clock,
  \<^verbatim>\<open>metadata or {}\<close>. An exception leaves the \<^verbatim>\<open>try\<close> with the orchestrator as it
  is at that moment.
\<close>

definition execute_after_await ::
  "orchestrator \<Rightarrow> env \<Rightarrow> faults \<Rightarrow> frame \<Rightarrow> (exn + pydict) \<times> orchestrator"
where
  "execute_after_await self e f fr =
     (let tx_id = tx_id_of fr; asset_id = asset_id_of fr; amount = amount_of fr in
      if cancelled f then (except_clause tx_id CancelledError, self)
      else
        (case subscript (pool self) asset_id of
           Inl x \<Rightarrow> (except_clause tx_id x, self)
         | Inr old \<Rightarrow>
            (let self' = self\<lparr>pool := (pool self)(asset_id \<mapsto> old - amount)\<rparr> in
             (case subscript (pool self') asset_id of
                Inl x \<Rightarrow> (except_clause tx_id x, self')
              | Inr balance_after \<Rightarrow>
                 (case metadata_or_empty_arg (metadata_of fr) of
                    Inl x \<Rightarrow> (except_clause tx_id x, self')
                  | Inr meta \<Rightarrow>
                     (Inr (format_response tx_id ''COMMITTED''
                             (PDict [(''balance_after'', PInt balance_after),
                                     (''processed_at'', PStr (now_isoformat e)),
                                     (''meta'', PDict meta)])),
                      self'))))))"

text \<open>A call during which no other task runs: the second part follows the first at
  once. The outcome is a dictionary or an exception that reaches the caller, with the
  orchestrator afterwards.\<close>

definition execute_call ::
  "orchestrator \<Rightarrow> env \<Rightarrow> faults \<Rightarrow> string \<Rightarrow> int \<Rightarrow> metadata_arg
     \<Rightarrow> (exn + pydict) \<times> orchestrator"
where
  "execute_call self e f asset_id amount metadata =
     (case execute_until_await self e f asset_id amount metadata of
        Returned d \<Rightarrow> (Inr d, self)
      | Raised x \<Rightarrow> (Inl x, self)
      | Suspended fr \<Rightarrow> execute_after_await self e f fr)"

text \<open>\<^verbatim>\<open>execute_secure_transfer\<close> called with \<^verbatim>\<open>None\<close> or a plain dictionary as
  metadata, with a \<^verbatim>\<open>print\<close> that succeeds, not cancelled, and with no other task
  running during the call.\<close>

definition execute_secure_transfer ::
  "orchestrator \<Rightarrow> env \<Rightarrow> string \<Rightarrow> int \<Rightarrow> pydict option \<Rightarrow> (exn + pydict) \<times> orchestrator"
where
  "execute_secure_transfer self e asset_id amount metadata =
     execute_call self e no_faults asset_id amount (Plain metadata)"

text \<open>The field \<^verbatim>\<open>status\<close> of a returned dictionary.\<close>

definition status_of :: "pydict \<Rightarrow> pyval option" where
  "status_of response = map_of response ''status''"

text \<open>The status of the outcome of a call, when the call returns a dictionary.\<close>

definition response_status :: "(exn + pydict) \<times> orchestrator \<Rightarrow> pyval option" where
  "response_status outcome = (case fst outcome of Inl x \<Rightarrow> None | Inr d \<Rightarrow> status_of d)"

subsection \<open>Sequential callers\<close>

text \<open>One call of a sequential caller: the environment of the call, then the three
  arguments of \<^verbatim>\<open>execute_secure_transfer\<close>.\<close>

type_synonym call = "env \<times> string \<times> int \<times> pydict option"

text \<open>A caller that awaits each transfer before it submits the next one; the value is
  the orchestrator after the last call.\<close>

fun run_sequential :: "orchestrator \<Rightarrow> call list \<Rightarrow> orchestrator" where
  "run_sequential self [] = self"
| "run_sequential self ((e, asset_id, amount, metadata) # cs) =
     run_sequential (snd (execute_secure_transfer self e asset_id amount metadata)) cs"

text \<open>No balance of the pool is below zero.\<close>

definition balances_nonneg :: "orchestrator \<Rightarrow> bool" where
  "balances_nonneg self = (\<forall>a b. pool self a = Some b \<longrightarrow> 0 \<le> b)"

subsection \<open>Tasks on the event loop\<close>

text \<open>A task running \<^verbatim>\<open>execute_secure_transfer\<close>: not started yet, with the
  surroundings and the arguments of its call; waiting at the \<^verbatim>\<open>await\<close>; or finished,
  with its outcome.\<close>

datatype task =
    Not_started env faults string int metadata_arg
  | Waiting env faults frame
  | Finished "exn + pydict"

text \<open>The event loop runs one task until the task gives control back.\<close>

fun advance :: "orchestrator \<Rightarrow> task \<Rightarrow> task \<times> orchestrator" where
  "advance self (Not_started e f asset_id amount metadata) =
     (case execute_until_await self e f asset_id amount metadata of
        Returned d \<Rightarrow> (Finished (Inr d), self)
      | Raised x \<Rightarrow> (Finished (Inl x), self)
      | Suspended fr \<Rightarrow> (Waiting e f fr, self))"
| "advance self (Waiting e f fr) =
     (case execute_after_await self e f fr of (r, self') \<Rightarrow> (Finished r, self'))"
| "advance self (Finished r) = (Finished r, self)"

text \<open>The tasks of one orchestrator run in the order of a schedule, the list of the
  positions of the tasks that the loop runs one after the other.\<close>

fun run_schedule :: "orchestrator \<Rightarrow> task list \<Rightarrow> nat list \<Rightarrow> orchestrator \<times> task list" where
  "run_schedule self ts [] = (self, ts)"
| "run_schedule self ts (i # sched) =
     (if i < length ts
      then (case advance self (ts ! i) of
              (t, self') \<Rightarrow> run_schedule self' (ts[i := t]) sched)
      else run_schedule self ts sched)"

subsection \<open>Concrete pools and environments\<close>

definition gold_pool :: "int \<Rightarrow> (string \<rightharpoonup> int)" where
  "gold_pool b = [''gold'' \<mapsto> b]"

definition two_asset_pool :: "string \<rightharpoonup> int" where
  "two_asset_pool = [''gold'' \<mapsto> 100, ''silver'' \<mapsto> 50]"

definition env_one :: env where
  "env_one = \<lparr>uuid4 = ''0b1e6c1e-5a0c-4d0e-9e57-3c2f7a9d1a01'',
              now_isoformat = ''2024-05-01T12:00:00.000001''\<rparr>"

definition env_two :: env where
  "env_two = \<lparr>uuid4 = ''7c9a42de-1f3b-4b8a-8d2e-6e5f4a3b2c02'',
              now_isoformat = ''2024-05-01T12:00:01.000002''\<rparr>"




section \<open>What a single call does\<close>

lemma transfer_unknown:
  "pool self asset_id = None \<Longrightarrow>
   execute_secure_transfer self e asset_id amount metadata =
     (Inr [(''status'', PStr ''CRITICAL_FAILURE''), (''trace'', PStr (uuid4 e))], self)"
  by (simp add: execute_secure_transfer_def execute_call_def execute_until_await_def
        except_clause_def no_faults_def)

lemma transfer_rejected:
  "pool self asset_id = Some b \<Longrightarrow> b < amount \<Longrightarrow>
   execute_secure_transfer self e asset_id amount metadata =
     (Inr (format_response (uuid4 e) ''REJECTED'' (PStr detail_insufficient)), self)"
  by (simp add: execute_secure_transfer_def execute_call_def execute_until_await_def
        subscript_def no_faults_def)

lemma transfer_committed:
  "pool self asset_id = Some b \<Longrightarrow> amount \<le> b \<Longrightarrow>
   execute_secure_transfer self e asset_id amount metadata =
     (Inr (format_response (uuid4 e) ''COMMITTED''
             (PDict [(''balance_after'', PInt (b - amount)),
                     (''processed_at'', PStr (now_isoformat e)),
                     (''meta'', PDict (metadata_or_empty metadata))])),
      self\<lparr>pool := (pool self)(asset_id \<mapsto> b - amount)\<rparr>)"
  by (simp add: execute_secure_transfer_def execute_call_def execute_until_await_def
        execute_after_await_def metadata_or_empty_arg_def subscript_def no_faults_def Let_def)

lemma status_of_format_response [simp]:
  "status_of (format_response tx_id status detail) = Some (PStr status)"
  by (simp add: status_of_def format_response_def)

lemma transfer_frame:
  "a \<noteq> asset_id \<Longrightarrow>
   pool (snd (execute_secure_transfer self e asset_id amount metadata)) a = pool self a"
proof (cases "pool self asset_id")
  case None
  then show ?thesis by (simp add: transfer_unknown)
next
  case (Some b)
  assume "a \<noteq> asset_id"
  then show ?thesis
    using Some by (cases "amount \<le> b") (simp_all add: transfer_committed transfer_rejected)
qed

lemma transfer_history:
  "history (snd (execute_secure_transfer self e asset_id amount metadata)) = history self"
proof (cases "pool self asset_id")
  case None
  then show ?thesis by (simp add: transfer_unknown)
next
  case (Some b)
  then show ?thesis
    by (cases "amount \<le> b") (simp_all add: transfer_committed transfer_rejected)
qed

lemma transfer_nonneg:
  assumes "balances_nonneg self"
  shows "balances_nonneg (snd (execute_secure_transfer self e asset_id amount metadata))"
proof (cases "pool self asset_id")
  case None
  then show ?thesis using assms by (simp add: transfer_unknown)
next
  case (Some b)
  show ?thesis
  proof (cases "amount \<le> b")
    case True
    then show ?thesis
      using assms Some by (auto simp add: transfer_committed balances_nonneg_def)
  next
    case False
    then show ?thesis using assms Some by (simp add: transfer_rejected)
  qed
qed

lemma run_sequential_history:
  "history (run_sequential self cs) = history self"
proof (induction cs arbitrary: self)
  case Nil
  show ?case by simp
next
  case (Cons c cs)
  obtain e a n m where c: "c = (e, a, n, m)" by (cases c)
  show ?case using Cons.IH c by (simp add: transfer_history)
qed

lemma run_schedule_alone:
  "run_schedule self [Not_started e f asset_id amount metadata] [0, 0] =
     (snd (execute_call self e f asset_id amount metadata),
      [Finished (fst (execute_call self e f asset_id amount metadata))])"
  by (cases "execute_until_await self e f asset_id amount metadata")
     (simp_all add: execute_call_def split: prod.splits)

text \<open>Calls that do not overlap keep every balance at or above zero.\<close>

lemma sequential_balances_nonneg:
  assumes "balances_nonneg self"
  shows "balances_nonneg (run_sequential self cs)"
  using assms
proof (induction cs arbitrary: self)
  case Nil
  then show ?case by simp
next
  case (Cons c cs)
  obtain e' a' n' m' where c: "c = (e', a', n', m')" by (cases c)
  have "balances_nonneg (snd (execute_secure_transfer self e' a' n' m'))"
    using Cons.prems by (rule transfer_nonneg)
  then show ?case using Cons.IH c by simp
qed




section \<open>The claims\<close>

text \<open>
  C1. For an asset of the pool with balance \<open>b\<close> and any amount: when \<open>amount \<le> b\<close>
  the call commits and the balance becomes \<open>b - amount\<close>; otherwise the call returns
  status REJECTED with the insufficient-funds detail and the orchestrator is unchanged.
  So the call commits if and only if the balance covers the amount, and for an amount
  other than zero the balance afterwards is \<open>b - amount\<close> if and only if it does.
\<close>

theorem debit_iff_balance_covers_amount:
  assumes "pool self asset_id = Some b"
  shows "(amount \<le> b \<longrightarrow>
            response_status (execute_secure_transfer self e asset_id amount metadata)
              = Some (PStr ''COMMITTED'') \<and>
            snd (execute_secure_transfer self e asset_id amount metadata)
              = self\<lparr>pool := (pool self)(asset_id \<mapsto> b - amount)\<rparr>) \<and>
         (\<not> amount \<le> b \<longrightarrow>
            fst (execute_secure_transfer self e asset_id amount metadata)
              = Inr (format_response (uuid4 e) ''REJECTED'' (PStr detail_insufficient)) \<and>
            snd (execute_secure_transfer self e asset_id amount metadata) = self) \<and>
         (response_status (execute_secure_transfer self e asset_id amount metadata)
              = Some (PStr ''COMMITTED'') \<longleftrightarrow> amount \<le> b) \<and>
         (amount \<noteq> 0 \<longrightarrow>
            (pool (snd (execute_secure_transfer self e asset_id amount metadata)) asset_id
               = Some (b - amount) \<longleftrightarrow> amount \<le> b))"
proof (cases "amount \<le> b")
  case True
  then show ?thesis
    using assms by (simp add: transfer_committed response_status_def)
next
  case False
  then have "b < amount" by simp
  then show ?thesis
    using assms by (simp add: transfer_rejected response_status_def)
qed

theorem debit_iff_balance_covers_amount_witness:
  "fst (execute_secure_transfer (init (gold_pool 10)) env_one ''gold'' 30 None)
     = Inr (format_response (uuid4 env_one) ''REJECTED'' (PStr detail_insufficient)) \<and>
   snd (execute_secure_transfer (init (gold_pool 10)) env_one ''gold'' 30 None)
     = init (gold_pool 10) \<and>
   pool (init (gold_pool 10)) ''gold'' = Some 10"
proof -
  have h: "pool (init (gold_pool 10)) ''gold'' = Some 10"
    by (simp add: init_def gold_pool_def)
  show ?thesis
    using h debit_iff_balance_covers_amount [OF h, of 30 env_one None] by simp
qed

text \<open>
  C2. The specification asks that a pool whose balances are all at or above zero still
  has none below zero after any call. The code compares the balance with the amount at
  line 43 and debits at line 55, after the \<^verbatim>\<open>await\<close> of line 52, so two calls that
  overlap both pass the comparison before either debits. For gold at 100 and two tasks
  that each transfer 80, run by the loop in the order first, second, first, second,
  both tasks return COMMITTED, the second one with \<open>balance_after = -60\<close>, and the pool
  ends with gold at \<open>-60\<close>.
\<close>

theorem overlapping_transfers_overdraw:
  "balances_nonneg (init (gold_pool 100)) \<and>
   run_schedule (init (gold_pool 100))
      [Not_started env_one no_faults ''gold'' 80 (Plain None),
       Not_started env_two no_faults ''gold'' 80 (Plain None)]
      [0, 1, 0, 1]
     = (init (gold_pool (- 60)),
        [Finished (Inr (format_response (uuid4 env_one) ''COMMITTED''
                          (PDict [(''balance_after'', PInt 20),
                                  (''processed_at'', PStr (now_isoformat env_one)),
                                  (''meta'', PDict [])]))),
         Finished (Inr (format_response (uuid4 env_two) ''COMMITTED''
                          (PDict [(''balance_after'', PInt (- 60)),
                                  (''processed_at'', PStr (now_isoformat env_two)),
                                  (''meta'', PDict [])])))]) \<and>
   \<not> balances_nonneg (init (gold_pool (- 60)))"
proof (intro conjI)
  show "balances_nonneg (init (gold_pool 100))"
    by (simp add: balances_nonneg_def init_def gold_pool_def)
  show "\<not> balances_nonneg (init (gold_pool (- 60)))"
    by (simp add: balances_nonneg_def init_def gold_pool_def)
  show "run_schedule (init (gold_pool 100))
      [Not_started env_one no_faults ''gold'' 80 (Plain None),
       Not_started env_two no_faults ''gold'' 80 (Plain None)]
      [0, 1, 0, 1]
     = (init (gold_pool (- 60)),
        [Finished (Inr (format_response (uuid4 env_one) ''COMMITTED''
                          (PDict [(''balance_after'', PInt 20),
                                  (''processed_at'', PStr (now_isoformat env_one)),
                                  (''meta'', PDict [])]))),
         Finished (Inr (format_response (uuid4 env_two) ''COMMITTED''
                          (PDict [(''balance_after'', PInt (- 60)),
                                  (''processed_at'', PStr (now_isoformat env_two)),
                                  (''meta'', PDict [])])))])"
    by (simp add: execute_until_await_def execute_after_await_def metadata_or_empty_arg_def
          metadata_or_empty_def subscript_def no_faults_def init_def gold_pool_def Let_def)
qed

theorem overlapping_transfers_overdraw_witness:
  "balances_nonneg (init (gold_pool 100)) \<and>
   \<not> balances_nonneg (fst (run_schedule (init (gold_pool 100))
      [Not_started env_one no_faults ''gold'' 80 (Plain None),
       Not_started env_two no_faults ''gold'' 80 (Plain None)]
      [0, 1, 0, 1]))"
  using overlapping_transfers_overdraw by simp

text \<open>
  C3. For an asset with balance 100, a transfer of 30 returns the dictionary with status
  COMMITTED whose payload holds \<open>balance_after = 70\<close>, the timestamp of the call and the
  metadata, and the pool afterwards holds 70 for the asset.
\<close>

theorem commit_100_minus_30:
  assumes "pool self asset_id = Some 100"
  shows "execute_secure_transfer self e asset_id 30 metadata =
           (Inr [(''tx_hash'', PStr (uuid4 e)),
                 (''status'', PStr ''COMMITTED''),
                 (''payload'', PDict [(''balance_after'', PInt 70),
                                      (''processed_at'', PStr (now_isoformat e)),
                                      (''meta'', PDict (metadata_or_empty metadata))])],
            self\<lparr>pool := (pool self)(asset_id \<mapsto> 70)\<rparr>) \<and>
         pool (snd (execute_secure_transfer self e asset_id 30 metadata)) asset_id = Some 70"
  using assms by (simp add: transfer_committed format_response_def)

theorem commit_100_minus_30_witness:
  "pool (init (gold_pool 100)) ''gold'' = Some 100 \<and>
   response_status (execute_secure_transfer (init (gold_pool 100)) env_one ''gold'' 30 None)
     = Some (PStr ''COMMITTED'') \<and>
   pool (snd (execute_secure_transfer (init (gold_pool 100)) env_one ''gold'' 30 None)) ''gold''
     = Some 70"
proof -
  have h: "pool (init (gold_pool 100)) ''gold'' = Some 100"
    by (simp add: init_def gold_pool_def)
  show ?thesis
    using h commit_100_minus_30 [OF h, of env_one None]
    by (simp add: response_status_def status_of_def)
qed

text \<open>
  C4 as the specification states it: a transfer on an asset id that the pool does not
  hold returns status FAILED. It does not: for the pool holding only gold and the asset
  id ghost, the call returns the two-key dictionary of the exception handler, whose
  status is CRITICAL_FAILURE and which has no payload.
\<close>

theorem unknown_asset_not_FAILED:
  "pool (init (gold_pool 100)) ''ghost'' = None \<and>
   fst (execute_secure_transfer (init (gold_pool 100)) env_one ''ghost'' 5 None)
     = Inr [(''status'', PStr ''CRITICAL_FAILURE''), (''trace'', PStr (uuid4 env_one))] \<and>
   response_status (execute_secure_transfer (init (gold_pool 100)) env_one ''ghost'' 5 None)
     \<noteq> Some (PStr ''FAILED'')"
  by (simp add: transfer_unknown init_def gold_pool_def response_status_def status_of_def)

text \<open>
  C4, amended. For every asset id that the pool does not hold, the call returns exactly
  the dictionary with status CRITICAL_FAILURE and the transaction id under \<open>trace\<close>
  (no reason and no payload are part of it), and the orchestrator, so every balance, is
  unchanged.
\<close>

theorem unknown_asset_critical_failure:
  assumes "pool self asset_id = None"
  shows "execute_secure_transfer self e asset_id amount metadata =
           (Inr [(''status'', PStr ''CRITICAL_FAILURE''), (''trace'', PStr (uuid4 e))], self)"
  using assms by (rule transfer_unknown)

theorem unknown_asset_critical_failure_witness:
  "pool (init (gold_pool 100)) ''ghost'' = None \<and>
   execute_secure_transfer (init (gold_pool 100)) env_one ''ghost'' 5 None =
     (Inr [(''status'', PStr ''CRITICAL_FAILURE''), (''trace'', PStr (uuid4 env_one))],
      init (gold_pool 100))"
proof -
  have h: "pool (init (gold_pool 100)) ''ghost'' = None"
    by (simp add: init_def gold_pool_def)
  show ?thesis
    using h unknown_asset_critical_failure [OF h, of env_one 5 None] by simp
qed

text \<open>
  C5 as the specification states it: an amount that is zero or negative is refused with
  status FAILED and the balance is unchanged. It is not: for gold at 100 and the amount
  \<open>-5\<close>, the call commits and the balance becomes 105.
\<close>

theorem negative_amount_commits:
  "pool (init (gold_pool 100)) ''gold'' = Some 100 \<and>
   response_status (execute_secure_transfer (init (gold_pool 100)) env_one ''gold'' (- 5) None)
     = Some (PStr ''COMMITTED'') \<and>
   response_status (execute_secure_transfer (init (gold_pool 100)) env_one ''gold'' (- 5) None)
     \<noteq> Some (PStr ''FAILED'') \<and>
   pool (snd (execute_secure_transfer (init (gold_pool 100)) env_one ''gold'' (- 5) None)) ''gold''
     = Some 105"
proof -
  have h: "pool (init (gold_pool 100)) ''gold'' = Some 100"
    by (simp add: init_def gold_pool_def)
  have le: "(- 5 :: int) \<le> 100" by simp
  show ?thesis
    using h by (simp add: transfer_committed [OF h le] response_status_def)
qed

text \<open>
  C5, amended. The amount is not validated. For every asset of the pool with balance
  \<open>b\<close> and every amount that is zero or negative, the status is never FAILED: when
  \<open>amount \<le> b\<close>, which holds whenever \<open>b\<close> is not negative, the call commits and the
  balance becomes \<open>b - amount\<close> (the same for the amount zero, larger for a negative
  one); when \<open>b < amount\<close> the call is rejected and the orchestrator is unchanged.
\<close>

theorem nonpositive_amount_not_validated:
  assumes "pool self asset_id = Some b" and "amount \<le> 0"
  shows "response_status (execute_secure_transfer self e asset_id amount metadata)
           \<noteq> Some (PStr ''FAILED'') \<and>
         (amount \<le> b \<longrightarrow>
            response_status (execute_secure_transfer self e asset_id amount metadata)
              = Some (PStr ''COMMITTED'') \<and>
            snd (execute_secure_transfer self e asset_id amount metadata)
              = self\<lparr>pool := (pool self)(asset_id \<mapsto> b - amount)\<rparr> \<and>
            b \<le> b - amount) \<and>
         (0 \<le> b \<longrightarrow> amount \<le> b) \<and>
         (b < amount \<longrightarrow>
            response_status (execute_secure_transfer self e asset_id amount metadata)
              = Some (PStr ''REJECTED'') \<and>
            snd (execute_secure_transfer self e asset_id amount metadata) = self)"
proof (cases "amount \<le> b")
  case True
  then show ?thesis
    using assms by (simp add: transfer_committed response_status_def)
next
  case False
  then have "b < amount" by simp
  then show ?thesis
    using assms by (simp add: transfer_rejected response_status_def)
qed

theorem nonpositive_amount_not_validated_witness:
  "pool (init (gold_pool 100)) ''gold'' = Some 100 \<and> (0::int) \<le> 0 \<and>
   response_status (execute_secure_transfer (init (gold_pool 100)) env_one ''gold'' 0 None)
     = Some (PStr ''COMMITTED'') \<and>
   snd (execute_secure_transfer (init (gold_pool 100)) env_one ''gold'' 0 None)
     = init (gold_pool 100)"
proof -
  have h: "pool (init (gold_pool 100)) ''gold'' = Some 100"
    by (simp add: init_def gold_pool_def)
  have z: "(0::int) \<le> 0" by simp
  show ?thesis
    using h nonpositive_amount_not_validated [OF h z, of env_one None]
    by (simp add: init_def gold_pool_def)
qed

text \<open>
  C6 as the specification states it: the same request submitted twice, one call after
  the other, returns the same result the second time and debits the balance once. It
  does not: for gold at 100 and two transfers of 30, the second result differs from the
  first (another transaction id, \<open>balance_after\<close> 40 instead of 70) and the balance
  ends at 40.
\<close>

theorem replay_debits_twice:
  "fst (execute_secure_transfer
          (snd (execute_secure_transfer (init (gold_pool 100)) env_one ''gold'' 30 None))
          env_two ''gold'' 30 None)
     \<noteq> fst (execute_secure_transfer (init (gold_pool 100)) env_one ''gold'' 30 None) \<and>
   pool (snd (execute_secure_transfer (init (gold_pool 100)) env_one ''gold'' 30 None)) ''gold''
     = Some 70 \<and>
   pool (snd (execute_secure_transfer
          (snd (execute_secure_transfer (init (gold_pool 100)) env_one ''gold'' 30 None))
          env_two ''gold'' 30 None)) ''gold''
     = Some 40"
proof -
  have h: "pool (init (gold_pool 100)) ''gold'' = Some 100"
    by (simp add: init_def gold_pool_def)
  have le: "(30::int) \<le> 100" by simp
  have first: "execute_secure_transfer (init (gold_pool 100)) env_one ''gold'' 30 None =
      (Inr (format_response (uuid4 env_one) ''COMMITTED''
              (PDict [(''balance_after'', PInt 70),
                      (''processed_at'', PStr (now_isoformat env_one)),
                      (''meta'', PDict (metadata_or_empty None))])),
       (init (gold_pool 100))\<lparr>pool := (pool (init (gold_pool 100)))(''gold'' \<mapsto> 70)\<rparr>)"
    using transfer_committed [OF h le, of env_one None] by simp
  have h2: "pool ((init (gold_pool 100))\<lparr>pool := (pool (init (gold_pool 100)))(''gold'' \<mapsto> 70)\<rparr>)
              ''gold'' = Some 70"
    by simp
  have le2: "(30::int) \<le> 70" by simp
  show ?thesis
    unfolding first
    using transfer_committed [OF h2 le2, of env_two None]
    by (simp add: format_response_def)
qed

text \<open>
  C6, amended. There is no idempotency key and no replay detection: the same request
  submitted twice, one call after the other, is executed twice. When the balance \<open>b\<close>
  covers both (\<open>amount \<le> b\<close> and \<open>amount \<le> b - amount\<close>), the first call commits with
  \<open>balance_after = b - amount\<close> under the transaction id drawn for it, the second
  commits with \<open>balance_after = b - 2 * amount\<close> under the transaction id drawn for it,
  and the balance ends at \<open>b - 2 * amount\<close>.
\<close>

theorem same_request_twice_executes_twice:
  assumes "pool self asset_id = Some b" and "amount \<le> b" and "amount \<le> b - amount"
  shows "fst (execute_secure_transfer self e1 asset_id amount metadata) =
           Inr (format_response (uuid4 e1) ''COMMITTED''
                  (PDict [(''balance_after'', PInt (b - amount)),
                          (''processed_at'', PStr (now_isoformat e1)),
                          (''meta'', PDict (metadata_or_empty metadata))])) \<and>
         execute_secure_transfer
             (snd (execute_secure_transfer self e1 asset_id amount metadata))
             e2 asset_id amount metadata =
           (Inr (format_response (uuid4 e2) ''COMMITTED''
                  (PDict [(''balance_after'', PInt (b - 2 * amount)),
                          (''processed_at'', PStr (now_isoformat e2)),
                          (''meta'', PDict (metadata_or_empty metadata))])),
            self\<lparr>pool := (pool self)(asset_id \<mapsto> b - 2 * amount)\<rparr>)"
proof -
  let ?mid = "self\<lparr>pool := (pool self)(asset_id \<mapsto> b - amount)\<rparr>"
  have first: "execute_secure_transfer self e1 asset_id amount metadata =
      (Inr (format_response (uuid4 e1) ''COMMITTED''
              (PDict [(''balance_after'', PInt (b - amount)),
                      (''processed_at'', PStr (now_isoformat e1)),
                      (''meta'', PDict (metadata_or_empty metadata))])), ?mid)"
    using assms(1,2) by (rule transfer_committed)
  have mid: "pool ?mid asset_id = Some (b - amount)" by simp
  have twice: "b - amount - amount = b - 2 * amount" by simp
  show ?thesis
    unfolding first
    using transfer_committed [OF mid assms(3), of e2 metadata]
    by (simp add: twice)
qed

theorem same_request_twice_executes_twice_witness:
  "pool (init (gold_pool 100)) ''gold'' = Some 100 \<and> (30::int) \<le> 100 \<and> (30::int) \<le> 100 - 30 \<and>
   execute_secure_transfer
       (snd (execute_secure_transfer (init (gold_pool 100)) env_one ''gold'' 30 None))
       env_two ''gold'' 30 None =
     (Inr (format_response (uuid4 env_two) ''COMMITTED''
            (PDict [(''balance_after'', PInt 40),
                    (''processed_at'', PStr (now_isoformat env_two)),
                    (''meta'', PDict [])])),
      init (gold_pool 40))"
proof -
  have h: "pool (init (gold_pool 100)) ''gold'' = Some 100"
    by (simp add: init_def gold_pool_def)
  have a: "(30::int) \<le> 100" by simp
  have b: "(30::int) \<le> 100 - 30" by simp
  show ?thesis
    using h same_request_twice_executes_twice [OF h a b, of env_one None env_two]
    by (simp add: init_def gold_pool_def metadata_or_empty_def)
qed

text \<open>
  C7 as the specification states it: a call that returns a terminal result has appended
  a record of the transaction to the history. It has not: after a committed transfer on
  an orchestrator fresh from its constructor the history is still the empty list.
\<close>

theorem history_still_empty_after_commit:
  "response_status (execute_secure_transfer (init (gold_pool 100)) env_one ''gold'' 30 None)
     = Some (PStr ''COMMITTED'') \<and>
   history (init (gold_pool 100)) = [] \<and>
   history (snd (execute_secure_transfer (init (gold_pool 100)) env_one ''gold'' 30 None)) = []"
proof -
  have h: "pool (init (gold_pool 100)) ''gold'' = Some 100"
    by (simp add: init_def gold_pool_def)
  have le: "(30::int) \<le> 100" by simp
  note c = transfer_committed [OF h le, of env_one None]
  show ?thesis
    unfolding c by (simp add: response_status_def init_def)
qed

text \<open>
  C7, amended. No call appends to the history: after every call the history is the one
  before the call, whatever the result, and after any sequence of calls on an
  orchestrator fresh from its constructor the history is empty.
\<close>

theorem history_never_written:
  "history (snd (execute_secure_transfer self e asset_id amount metadata)) = history self \<and>
   history (run_sequential (init resource_pool) cs) = []"
  by (simp add: transfer_history run_sequential_history) (simp add: init_def)

theorem history_never_written_witness:
  "history (snd (execute_secure_transfer (init (gold_pool 10)) env_one ''gold'' 30 None)) = [] \<and>
   history (run_sequential (init (gold_pool 10))
      [(env_one, ''gold'', 30, None), (env_two, ''ghost'', 5, None)]) = []"
  using history_never_written [of "init (gold_pool 10)" env_one "''gold''" 30 None
      "gold_pool 10" "[(env_one, ''gold'', 30, None), (env_two, ''ghost'', 5, None)]"]
  by (simp add: init_def)

text \<open>
  C8. A call on the asset id \<open>asset_id\<close> leaves the entry of every other asset id of the
  pool as it was, present or absent.
\<close>

theorem other_assets_unchanged:
  assumes "a \<noteq> asset_id"
  shows "pool (snd (execute_secure_transfer self e asset_id amount metadata)) a = pool self a"
  using assms by (rule transfer_frame)

theorem other_assets_unchanged_witness:
  "''silver'' \<noteq> ''gold'' \<and>
   pool (snd (execute_secure_transfer (init two_asset_pool) env_one ''gold'' 30 None)) ''silver''
     = Some 50"
proof -
  have h: "''silver'' \<noteq> ''gold''" by simp
  show ?thesis
    using h other_assets_unchanged [OF h, of "init two_asset_pool" env_one 30 None]
    by (simp add: init_def two_asset_pool_def)
qed




text \<open>
  C10. For every orchestrator and every input the status of the returned dictionary is
  COMMITTED, REJECTED or CRITICAL_FAILURE; it is never PENDING and never FAILED.
\<close>

theorem status_is_one_of_three:
  "(response_status (execute_secure_transfer self e asset_id amount metadata)
      = Some (PStr ''COMMITTED'') \<or>
    response_status (execute_secure_transfer self e asset_id amount metadata)
      = Some (PStr ''REJECTED'') \<or>
    response_status (execute_secure_transfer self e asset_id amount metadata)
      = Some (PStr ''CRITICAL_FAILURE'')) \<and>
   response_status (execute_secure_transfer self e asset_id amount metadata)
      \<noteq> Some (PStr ''PENDING'') \<and>
   response_status (execute_secure_transfer self e asset_id amount metadata)
      \<noteq> Some (PStr ''FAILED'')"
proof (cases "pool self asset_id")
  case None
  then show ?thesis
    by (simp add: transfer_unknown response_status_def status_of_def)
next
  case (Some b)
  then show ?thesis
    by (cases "amount \<le> b")
       (simp_all add: transfer_committed transfer_rejected response_status_def)
qed

theorem status_is_one_of_three_witness:
  "response_status (execute_secure_transfer (init (gold_pool 10)) env_two ''gold'' 30 None)
     = Some (PStr ''REJECTED'')"
  using status_is_one_of_three [of "init (gold_pool 10)" env_two "''gold''" 30 None]
  by (simp add: execute_secure_transfer_def execute_call_def execute_until_await_def
        subscript_def no_faults_def init_def gold_pool_def
        response_status_def)

end
